theory Spec2Isabelle
  imports Main
begin

section \<open>The collaborator types at the boundary\<close>

text \<open>
  \<^verbatim>\<open>graph_utils.h\<close> consumes the communication context, the object-store client, the
  parameter bag, the object identifier and the fragment wrapper as fixed external types
  and never looks inside them. Each is an opaque token here. A
  \<^verbatim>\<open>std::shared_ptr<IFragmentWrapper>\<close> may be null, so it is an \<open>option\<close>.
\<close>

datatype CommSpec = CommSpec nat
datatype Client = Client nat
datatype GSParams = GSParams "(string \<times> string) list"
datatype ObjectID = ObjectID nat
datatype IFragmentWrapper = IFragmentWrapper nat

text \<open>
  \<^verbatim>\<open>ObjectType\<close> and \<^verbatim>\<open>vineyard::ErrorCode\<close> are enums declared elsewhere; the header
  names one enumerator of each.
\<close>

datatype ObjectType = kPropertyGraphUtils

datatype ErrorCode = kUnsupportedOperationError | kOtherErrorCode nat

text \<open>
  The errors that travel in a \<^verbatim>\<open>bl::result\<close>. \<open>GSError\<close> is what
  \<^verbatim>\<open>RETURN_GS_ERROR\<close> builds from an error code and a message; the two loader errors
  carry the library path, and the missing symbol.
\<close>

datatype gs_error =
    LibraryLoadError string
  | SymbolResolutionError string string
  | GSError ErrorCode string

text \<open>
  \<^verbatim>\<open>bl::result<std::shared_ptr<IFragmentWrapper>>\<close>: an error or a (possibly null)
  wrapper. A default-constructed result holds a default-constructed value, the null
  pointer: that is the empty output slot each method hands to its entry point.
\<close>

type_synonym fragment_result = "gs_error + IFragmentWrapper option"

definition empty_slot :: fragment_result where
  "empty_slot = Inr None"

section \<open>The entry-point signatures\<close>

text \<open>
  The five \<^verbatim>\<open>typedef void ...T(...)\<close> of the header. An entry point returns nothing
  and writes its outcome into the last parameter, a reference to the result slot; here
  it takes the slot and returns the slot as it has left it.
\<close>

type_synonym LoadGraphT =
  "CommSpec \<Rightarrow> Client \<Rightarrow> string \<Rightarrow> GSParams \<Rightarrow> fragment_result \<Rightarrow> fragment_result"

type_synonym AddVerticesToGraphT =
  "ObjectID \<Rightarrow> CommSpec \<Rightarrow> Client \<Rightarrow> string \<Rightarrow> GSParams \<Rightarrow> fragment_result \<Rightarrow> fragment_result"

type_synonym AddEdgesToGraphT =
  "ObjectID \<Rightarrow> CommSpec \<Rightarrow> Client \<Rightarrow> string \<Rightarrow> GSParams \<Rightarrow> fragment_result \<Rightarrow> fragment_result"

type_synonym ToArrowFragmentT =
  "Client \<Rightarrow> CommSpec \<Rightarrow> IFragmentWrapper option \<Rightarrow> string \<Rightarrow> fragment_result \<Rightarrow> fragment_result"

type_synonym ToDynamicFragmentT =
  "CommSpec \<Rightarrow> IFragmentWrapper option \<Rightarrow> string \<Rightarrow> fragment_result \<Rightarrow> fragment_result"

text \<open>
  What lives behind a non-null function pointer: code of one of the signatures above.
  \<^verbatim>\<open>AddVerticesToGraphT\<close> and \<^verbatim>\<open>AddEdgesToGraphT\<close> are the same function type, so they
  share a constructor. \<^verbatim>\<open>reinterpret_cast\<close> checks nothing: a pointer keeps its value,
  and only the call through it finds out whether the code has the signature the
  pointer's static type promises.
\<close>

datatype entry_point =
    EP_LoadGraph LoadGraphT
  | EP_AddToGraph AddVerticesToGraphT
  | EP_ToArrow ToArrowFragmentT
  | EP_ToDynamic ToDynamicFragmentT

text \<open>A library is its symbol table; a \<^verbatim>\<open>void*\<close> is \<open>None\<close> when null.\<close>

type_synonym library = "string \<Rightarrow> entry_point option"

section \<open>The dynamic loader\<close>

text \<open>
  The loader is the outside world of this unit: which libraries can be opened at which
  path, and a log of every request made to it and of every call made into a library.
\<close>

datatype dl_event =
    OpenLib string
  | GetFuncPtr string string
  | EntryCall entry_point

record dl_world =
  files :: "string \<Rightarrow> library option"
  log :: "dl_event list"

definition record_event :: "dl_event \<Rightarrow> dl_world \<Rightarrow> dl_world" where
  "record_event ev w = w\<lparr>log := log w @ [ev]\<rparr>"

text \<open>
  Modelled from the spec: \<^verbatim>\<open>open_lib\<close> of \<^verbatim>\<open>core/utils/lib_utils.h\<close> is not part of
  the unit. Opening the dynamic library at the configured path produces the library
  handle or fails with \<open>LibraryLoadError\<close>.
\<close>

definition open_lib :: "dl_world \<Rightarrow> string \<Rightarrow> (gs_error + library option) \<times> dl_world" where
  "open_lib w path =
     ((case files w path of
         None \<Rightarrow> Inl (LibraryLoadError path)
       | Some lib \<Rightarrow> Inr (Some lib)),
      record_event (OpenLib path) w)"

text \<open>
  Modelled from the spec: \<^verbatim>\<open>get_func_ptr\<close> of \<^verbatim>\<open>core/utils/lib_utils.h\<close> is not part
  of the unit. Resolving a function pointer from the library handle by symbol name
  fails with \<open>SymbolResolutionError\<close>, naming the missing symbol and the library path,
  when the symbol is missing. A null handle has nothing to resolve from.
\<close>

definition get_func_ptr ::
  "dl_world \<Rightarrow> string \<Rightarrow> library option \<Rightarrow> string \<Rightarrow> (gs_error + entry_point option) \<times> dl_world"
where
  "get_func_ptr w lib_path handle symbol =
     ((case handle of
         None \<Rightarrow> Inl (SymbolResolutionError symbol lib_path)
       | Some lib \<Rightarrow>
           (case lib symbol of
              None \<Rightarrow> Inl (SymbolResolutionError symbol lib_path)
            | Some ep \<Rightarrow> Inr (Some ep))),
      record_event (GetFuncPtr lib_path symbol) w)"

text \<open>
  Modelled from the spec: the macro \<^verbatim>\<open>RETURN_GS_ERROR\<close> is not part of the unit. It
  returns from the method with an error of the given kind and message.
\<close>

definition RETURN_GS_ERROR :: "ErrorCode \<Rightarrow> string \<Rightarrow> fragment_result" where
  "RETURN_GS_ERROR code msg = Inl (GSError code msg)"

section \<open>The class \<^verbatim>\<open>PropertyGraphUtils\<close>\<close>

text \<open>
  The private fields, with the base class's identifier and type. A name may not end in an
  underscore here, so the field \<^verbatim>\<open>load_graph_\<close> is written \<open>load_graph_'\<close>, and so on.
\<close>

record GSObject =
  id_' :: string
  type_' :: ObjectType

record PropertyGraphUtils = GSObject +
  lib_path_' :: string
  dl_handle_' :: "library option"
  load_graph_' :: "entry_point option"
  add_vertices_to_graph_' :: "entry_point option"
  add_edges_to_graph_' :: "entry_point option"
  to_arrow_fragment_' :: "entry_point option"
  to_dynamic_fragment_' :: "entry_point option"

text \<open>The constructor: the path is kept, the handle and the five bindings are null.\<close>

definition new_PropertyGraphUtils :: "string \<Rightarrow> string \<Rightarrow> PropertyGraphUtils" where
  "new_PropertyGraphUtils ident lib_path =
     \<lparr> id_' = ident, type_' = kPropertyGraphUtils,
       lib_path_' = lib_path,
       dl_handle_' = None,
       load_graph_' = None,
       add_vertices_to_graph_' = None,
       add_edges_to_graph_' = None,
       to_arrow_fragment_' = None,
       to_dynamic_fragment_' = None \<rparr>"

text \<open>
  \<^verbatim>\<open>Init\<close>. \<^verbatim>\<open>BOOST_LEAF_ASSIGN\<close> and \<^verbatim>\<open>BOOST_LEAF_AUTO\<close> return the error from the
  method at once when their right-hand side is one, and bind the value otherwise. Each
  block assigns its field before the next block runs.
\<close>

definition Init ::
  "dl_world \<Rightarrow> PropertyGraphUtils \<Rightarrow> (gs_error + unit) \<times> PropertyGraphUtils \<times> dl_world"
where
  "Init w s =
    (case open_lib w (lib_path_' s) of
       (Inl e, w0) \<Rightarrow> (Inl e, s, w0)
     | (Inr h, w0) \<Rightarrow>
    (let s0 = s\<lparr>dl_handle_' := h\<rparr> in
     case get_func_ptr w0 (lib_path_' s0) (dl_handle_' s0) ''LoadGraph'' of
       (Inl e, w1) \<Rightarrow> (Inl e, s0, w1)
     | (Inr p_fun, w1) \<Rightarrow>
    (let s1 = s0\<lparr>load_graph_' := p_fun\<rparr> in
     case get_func_ptr w1 (lib_path_' s1) (dl_handle_' s1) ''AddVerticesToGraph'' of
       (Inl e, w2) \<Rightarrow> (Inl e, s1, w2)
     | (Inr p_fun, w2) \<Rightarrow>
    (let s2 = s1\<lparr>add_vertices_to_graph_' := p_fun\<rparr> in
     case get_func_ptr w2 (lib_path_' s2) (dl_handle_' s2) ''AddEdgesToGraph'' of
       (Inl e, w3) \<Rightarrow> (Inl e, s2, w3)
     | (Inr p_fun, w3) \<Rightarrow>
    (let s3 = s2\<lparr>add_edges_to_graph_' := p_fun\<rparr> in
     case get_func_ptr w3 (lib_path_' s3) (dl_handle_' s3) ''ToArrowFragment'' of
       (Inl e, w4) \<Rightarrow> (Inl e, s3, w4)
     | (Inr p_fun, w4) \<Rightarrow>
    (let s4 = s3\<lparr>to_arrow_fragment_' := p_fun\<rparr> in
     case get_func_ptr w4 (lib_path_' s4) (dl_handle_' s4) ''ToDynamicFragment'' of
       (Inl e, w5) \<Rightarrow> (Inl e, s4, w5)
     | (Inr p_fun, w5) \<Rightarrow>
    (let s5 = s4\<lparr>to_dynamic_fragment_' := p_fun\<rparr> in
     (Inr (), s5, w5))))))))"

text \<open>
  What a call of an operation method comes to. The methods call through their binding
  with no test of it: through a null pointer, or into code of another signature, the
  behaviour is undefined and the method hands no result back.
\<close>

datatype call_outcome =
    Returned fragment_result
  | NullPointerCall
  | SignatureMismatch

definition LoadGraph ::
  "dl_world \<Rightarrow> PropertyGraphUtils \<Rightarrow> CommSpec \<Rightarrow> Client \<Rightarrow> string \<Rightarrow> GSParams
     \<Rightarrow> call_outcome \<times> PropertyGraphUtils \<times> dl_world"
where
  "LoadGraph w s comm_spec client graph_name params =
    (let wrapper = empty_slot in
     case load_graph_' s of
       None \<Rightarrow> (NullPointerCall, s, w)
     | Some ep \<Rightarrow>
         ((case ep of
             EP_LoadGraph f \<Rightarrow> Returned (f comm_spec client graph_name params wrapper)
           | _ \<Rightarrow> SignatureMismatch),
          s, record_event (EntryCall ep) w))"

definition AddVerticesToGraph ::
  "dl_world \<Rightarrow> PropertyGraphUtils \<Rightarrow> ObjectID \<Rightarrow> CommSpec \<Rightarrow> Client \<Rightarrow> string \<Rightarrow> GSParams
     \<Rightarrow> call_outcome \<times> PropertyGraphUtils \<times> dl_world"
where
  "AddVerticesToGraph w s frag_id comm_spec client graph_name params =
    (let wrapper = empty_slot in
     case add_vertices_to_graph_' s of
       None \<Rightarrow> (NullPointerCall, s, w)
     | Some ep \<Rightarrow>
         ((case ep of
             EP_AddToGraph f \<Rightarrow> Returned (f frag_id comm_spec client graph_name params wrapper)
           | _ \<Rightarrow> SignatureMismatch),
          s, record_event (EntryCall ep) w))"

definition AddEdgesToGraph ::
  "dl_world \<Rightarrow> PropertyGraphUtils \<Rightarrow> ObjectID \<Rightarrow> CommSpec \<Rightarrow> Client \<Rightarrow> string \<Rightarrow> GSParams
     \<Rightarrow> call_outcome \<times> PropertyGraphUtils \<times> dl_world"
where
  "AddEdgesToGraph w s frag_id comm_spec client graph_name params =
    (let wrapper = empty_slot in
     case add_edges_to_graph_' s of
       None \<Rightarrow> (NullPointerCall, s, w)
     | Some ep \<Rightarrow>
         ((case ep of
             EP_AddToGraph f \<Rightarrow> Returned (f frag_id comm_spec client graph_name params wrapper)
           | _ \<Rightarrow> SignatureMismatch),
          s, record_event (EntryCall ep) w))"

text \<open>
  The two conversions are compiled under \<^verbatim>\<open>#ifdef EXPERIMENTAL_ON\<close>: the first
  argument is the build's setting of that flag.
\<close>

definition ToArrowFragment ::
  "bool \<Rightarrow> dl_world \<Rightarrow> PropertyGraphUtils \<Rightarrow> Client \<Rightarrow> CommSpec \<Rightarrow> IFragmentWrapper option \<Rightarrow> string
     \<Rightarrow> call_outcome \<times> PropertyGraphUtils \<times> dl_world"
where
  "ToArrowFragment EXPERIMENTAL_ON w s client comm_spec wrapper_in dst_graph_name =
    (if EXPERIMENTAL_ON then
       (let wrapper = empty_slot in
        case to_arrow_fragment_' s of
          None \<Rightarrow> (NullPointerCall, s, w)
        | Some ep \<Rightarrow>
            ((case ep of
                EP_ToArrow f \<Rightarrow> Returned (f client comm_spec wrapper_in dst_graph_name wrapper)
              | _ \<Rightarrow> SignatureMismatch),
             s, record_event (EntryCall ep) w))
     else
       (Returned (RETURN_GS_ERROR kUnsupportedOperationError
                    ''GS is compiled with EXPERIMENTAL_ON=OFF''), s, w))"

definition ToDynamicFragment ::
  "bool \<Rightarrow> dl_world \<Rightarrow> PropertyGraphUtils \<Rightarrow> CommSpec \<Rightarrow> IFragmentWrapper option \<Rightarrow> string
     \<Rightarrow> call_outcome \<times> PropertyGraphUtils \<times> dl_world"
where
  "ToDynamicFragment EXPERIMENTAL_ON w s comm_spec wrapper_in dst_graph_name =
    (if EXPERIMENTAL_ON then
       (let wrapper = empty_slot in
        case to_dynamic_fragment_' s of
          None \<Rightarrow> (NullPointerCall, s, w)
        | Some ep \<Rightarrow>
            ((case ep of
                EP_ToDynamic f \<Rightarrow> Returned (f comm_spec wrapper_in dst_graph_name wrapper)
              | _ \<Rightarrow> SignatureMismatch),
             s, record_event (EntryCall ep) w))
     else
       (Returned (RETURN_GS_ERROR kUnsupportedOperationError
                    ''GS is compiled with EXPERIMENTAL_ON=OFF''), s, w))"

section \<open>Lifetimes and scenarios\<close>

text \<open>
  The five symbol names, in the order in which \<^verbatim>\<open>Init\<close> asks for them.
\<close>

definition required_symbols :: "string list" where
  "required_symbols =
     [''LoadGraph'', ''AddVerticesToGraph'', ''AddEdgesToGraph'',
      ''ToArrowFragment'', ''ToDynamicFragment'']"


fun resolutions :: "dl_event list \<Rightarrow> (string \<times> string) list" where
  "resolutions [] = []"
| "resolutions (GetFuncPtr path symbol # evs) = (path, symbol) # resolutions evs"
| "resolutions (_ # evs) = resolutions evs"

fun entry_calls :: "dl_event list \<Rightarrow> entry_point list" where
  "entry_calls [] = []"
| "entry_calls (EntryCall ep # evs) = ep # entry_calls evs"
| "entry_calls (_ # evs) = entry_calls evs"

text \<open>A method has handed a result back to its caller; and that result is an error.\<close>

fun has_returned :: "call_outcome \<Rightarrow> bool" where
  "has_returned (Returned r) = True"
| "has_returned NullPointerCall = False"
| "has_returned SignatureMismatch = False"





text \<open>
  Stub entry points, one per signature, and three libraries: one exporting all five
  symbols, one exporting only \<^verbatim>\<open>LoadGraph\<close> and \<^verbatim>\<open>AddVerticesToGraph\<close>, and one that
  lacks only the two conversions.
\<close>

definition stub_LoadGraph :: LoadGraphT where
  "stub_LoadGraph comm_spec client graph_name params fragment_wrapper =
     (if graph_name = ''g1'' then Inr (Some (IFragmentWrapper 1))
      else Inl (GSError (kOtherErrorCode 2) ''unknown graph''))"

definition stub_AddVerticesToGraph :: AddVerticesToGraphT where
  "stub_AddVerticesToGraph frag_id comm_spec client graph_name params fragment_wrapper =
     (case frag_id of ObjectID n \<Rightarrow> Inr (Some (IFragmentWrapper (n + 10))))"

definition stub_AddEdgesToGraph :: AddEdgesToGraphT where
  "stub_AddEdgesToGraph frag_id comm_spec client graph_name params fragment_wrapper =
     (case frag_id of ObjectID n \<Rightarrow> Inr (Some (IFragmentWrapper (n + 20))))"

definition stub_ToArrowFragment :: ToArrowFragmentT where
  "stub_ToArrowFragment client comm_spec wrapper_in dst_graph_name wrapper_out =
     (case wrapper_in of
        None \<Rightarrow> Inl (GSError (kOtherErrorCode 3) ''no fragment'')
      | Some f \<Rightarrow> Inr (Some f))"

definition stub_ToDynamicFragment :: ToDynamicFragmentT where
  "stub_ToDynamicFragment comm_spec wrapper_in dst_graph_name wrapper_out =
     (case wrapper_in of
        None \<Rightarrow> Inl (GSError (kOtherErrorCode 4) ''no fragment'')
      | Some f \<Rightarrow> Inr (Some f))"

definition full_library :: library where
  "full_library =
     [''LoadGraph'' \<mapsto> EP_LoadGraph stub_LoadGraph,
      ''AddVerticesToGraph'' \<mapsto> EP_AddToGraph stub_AddVerticesToGraph,
      ''AddEdgesToGraph'' \<mapsto> EP_AddToGraph stub_AddEdgesToGraph,
      ''ToArrowFragment'' \<mapsto> EP_ToArrow stub_ToArrowFragment,
      ''ToDynamicFragment'' \<mapsto> EP_ToDynamic stub_ToDynamicFragment]"

definition partial_library :: library where
  "partial_library =
     [''LoadGraph'' \<mapsto> EP_LoadGraph stub_LoadGraph,
      ''AddVerticesToGraph'' \<mapsto> EP_AddToGraph stub_AddVerticesToGraph]"

definition core_library :: library where
  "core_library =
     [''LoadGraph'' \<mapsto> EP_LoadGraph stub_LoadGraph,
      ''AddVerticesToGraph'' \<mapsto> EP_AddToGraph stub_AddVerticesToGraph,
      ''AddEdgesToGraph'' \<mapsto> EP_AddToGraph stub_AddEdgesToGraph]"

definition test_world :: dl_world where
  "test_world =
     \<lparr> files = [''/lib/full.so'' \<mapsto> full_library,
                ''/lib/partial.so'' \<mapsto> partial_library,
                ''/lib/core.so'' \<mapsto> core_library],
       log = [] \<rparr>"

text \<open>
  The field that \<^verbatim>\<open>Init\<close> assigns for each symbol name, and the state of an object
  none of whose five bindings is set.
\<close>

fun store_binding ::
  "string \<Rightarrow> entry_point option \<Rightarrow> PropertyGraphUtils \<Rightarrow> PropertyGraphUtils"
where
  "store_binding symbol p s =
     (if symbol = ''LoadGraph'' then s\<lparr>load_graph_' := p\<rparr>
      else if symbol = ''AddVerticesToGraph'' then s\<lparr>add_vertices_to_graph_' := p\<rparr>
      else if symbol = ''AddEdgesToGraph'' then s\<lparr>add_edges_to_graph_' := p\<rparr>
      else if symbol = ''ToArrowFragment'' then s\<lparr>to_arrow_fragment_' := p\<rparr>
      else if symbol = ''ToDynamicFragment'' then s\<lparr>to_dynamic_fragment_' := p\<rparr>
      else s)"

definition no_binding_stored :: "PropertyGraphUtils \<Rightarrow> bool" where
  "no_binding_stored s =
     (load_graph_' s = None \<and> add_vertices_to_graph_' s = None \<and>
      add_edges_to_graph_' s = None \<and> to_arrow_fragment_' s = None \<and>
      to_dynamic_fragment_' s = None)"

text \<open>
  The object \<open>plugin-1\<close> on the library that exports everything, before \<^verbatim>\<open>Init\<close>, and
  the object and the world that \<^verbatim>\<open>Init\<close> leaves.
\<close>

definition fresh_plugin :: PropertyGraphUtils where
  "fresh_plugin = new_PropertyGraphUtils ''plugin-1'' ''/lib/full.so''"

definition ready_plugin :: PropertyGraphUtils where
  "ready_plugin = fst (snd (Init test_world fresh_plugin))"

definition ready_world :: dl_world where
  "ready_world = snd (snd (Init test_world fresh_plugin))"




section \<open>Basic facts\<close>

lemmas loader_defs = Init_def open_lib_def get_func_ptr_def record_event_def

lemmas method_defs =
  LoadGraph_def AddVerticesToGraph_def AddEdgesToGraph_def
  ToArrowFragment_def ToDynamicFragment_def RETURN_GS_ERROR_def

lemmas scenario_defs =
  test_world_def full_library_def partial_library_def core_library_def
  new_PropertyGraphUtils_def required_symbols_def


lemma resolutions_append: "resolutions (xs @ ys) = resolutions xs @ resolutions ys"
  by (induction xs rule: resolutions.induct) simp_all

lemma entry_calls_append: "entry_calls (xs @ ys) = entry_calls xs @ entry_calls ys"
  by (induction xs rule: entry_calls.induct) simp_all

text \<open>After a successful \<^verbatim>\<open>Init\<close> each field holds what the library has under its name.\<close>

lemma Init_success_state:
  assumes "Init w s = (Inr u, s', w')" and "files w (lib_path_' s) = Some lib"
  shows "s' = s\<lparr>dl_handle_' := Some lib,
                 load_graph_' := lib ''LoadGraph'',
                 add_vertices_to_graph_' := lib ''AddVerticesToGraph'',
                 add_edges_to_graph_' := lib ''AddEdgesToGraph'',
                 to_arrow_fragment_' := lib ''ToArrowFragment'',
                 to_dynamic_fragment_' := lib ''ToDynamicFragment''\<rparr>"
  using assms by (auto simp: loader_defs Let_def split: option.splits)



text \<open>The scenario on the library that exports everything.\<close>

lemma fresh_plugin_opens: "files test_world (lib_path_' fresh_plugin) = Some full_library"
  by (simp add: fresh_plugin_def scenario_defs)

lemma full_library_symbols:
  "full_library ''LoadGraph'' = Some (EP_LoadGraph stub_LoadGraph)"
  "full_library ''AddVerticesToGraph'' = Some (EP_AddToGraph stub_AddVerticesToGraph)"
  "full_library ''AddEdgesToGraph'' = Some (EP_AddToGraph stub_AddEdgesToGraph)"
  "full_library ''ToArrowFragment'' = Some (EP_ToArrow stub_ToArrowFragment)"
  "full_library ''ToDynamicFragment'' = Some (EP_ToDynamic stub_ToDynamicFragment)"
  by (simp_all add: full_library_def)

lemma fresh_plugin_Init: "Init test_world fresh_plugin = (Inr (), ready_plugin, ready_world)"
proof -
  have "fst (Init test_world fresh_plugin) = Inr ()"
    by (simp add: loader_defs fresh_plugin_opens full_library_symbols)
  then show ?thesis
    by (simp add: ready_plugin_def ready_world_def prod_eq_iff)
qed







section \<open>Initialisation\<close>

text \<open>
  C1. When the library opens but lacks at least one of the five required symbols,
  \<^verbatim>\<open>Init\<close> fails with a \<open>SymbolResolutionError\<close> that names the first missing symbol
  in the resolution order and the library path. The resolutions it has asked of the
  loader are those of the symbols before the missing one, then the missing one, and
  none after it.
\<close>

theorem Init_fails_at_first_missing_symbol:
  assumes "files w (lib_path_' s) = Some lib"
      and "find (\<lambda>symbol. lib symbol = None) required_symbols = Some missing"
  shows "fst (Init w s) = Inl (SymbolResolutionError missing (lib_path_' s)) \<and>
     resolutions (log (snd (snd (Init w s)))) =
       resolutions (log w) @
       map (Pair (lib_path_' s))
         (takeWhile (\<lambda>symbol. lib symbol \<noteq> None) required_symbols @ [missing])"
  using assms
  by (auto simp: loader_defs required_symbols_def resolutions_append
           split: option.splits if_splits)

text \<open>
  The scenario of the specification: the object \<open>plugin-1\<close> on a library that exports
  only \<^verbatim>\<open>LoadGraph\<close> and \<^verbatim>\<open>AddVerticesToGraph\<close> reports \<^verbatim>\<open>AddEdgesToGraph\<close> missing,
  after three resolutions.
\<close>

theorem partial_library_reports_AddEdgesToGraph:
  "files test_world (lib_path_' (new_PropertyGraphUtils ''plugin-1'' ''/lib/partial.so'')) =
     Some partial_library
   \<and> find (\<lambda>symbol. partial_library symbol = None) required_symbols = Some ''AddEdgesToGraph''
   \<and> fst (Init test_world (new_PropertyGraphUtils ''plugin-1'' ''/lib/partial.so'')) =
       Inl (SymbolResolutionError ''AddEdgesToGraph'' ''/lib/partial.so'')
   \<and> resolutions (log (snd (snd
         (Init test_world (new_PropertyGraphUtils ''plugin-1'' ''/lib/partial.so''))))) =
       [(''/lib/partial.so'', ''LoadGraph''), (''/lib/partial.so'', ''AddVerticesToGraph''),
        (''/lib/partial.so'', ''AddEdgesToGraph'')]"
proof -
  let ?p = "new_PropertyGraphUtils ''plugin-1'' ''/lib/partial.so''"
  have opened: "files test_world (lib_path_' ?p) = Some partial_library"
    by (simp add: scenario_defs)
  have missing:
    "find (\<lambda>symbol. partial_library symbol = None) required_symbols = Some ''AddEdgesToGraph''"
    by (simp add: scenario_defs)
  have path: "lib_path_' ?p = ''/lib/partial.so''" and empty: "log test_world = []"
    by (simp_all add: scenario_defs)
  have kept: "takeWhile (\<lambda>symbol. partial_library symbol \<noteq> None) required_symbols =
      [''LoadGraph'', ''AddVerticesToGraph'']"
    by (simp add: scenario_defs)
  from Init_fails_at_first_missing_symbol [OF opened missing] opened missing show ?thesis
    unfolding path empty kept by simp
qed

text \<open>
  C2, as the specification states it: a failed \<^verbatim>\<open>Init\<close> leaves no binding stored. It
  does leave some: on the library that exports only \<^verbatim>\<open>LoadGraph\<close> and
  \<^verbatim>\<open>AddVerticesToGraph\<close>, \<^verbatim>\<open>Init\<close> fails, and the object, none of whose bindings was
  set before, now holds the \<^verbatim>\<open>LoadGraph\<close> binding.
\<close>

theorem partial_library_leaves_bindings_stored:
  "isl (fst (Init test_world (new_PropertyGraphUtils ''plugin-1'' ''/lib/partial.so'')))
   \<and> no_binding_stored (new_PropertyGraphUtils ''plugin-1'' ''/lib/partial.so'')
   \<and> \<not> no_binding_stored
         (fst (snd (Init test_world (new_PropertyGraphUtils ''plugin-1'' ''/lib/partial.so''))))
   \<and> load_graph_'
         (fst (snd (Init test_world (new_PropertyGraphUtils ''plugin-1'' ''/lib/partial.so'')))) =
       Some (EP_LoadGraph stub_LoadGraph)"
  by (simp add: loader_defs scenario_defs no_binding_stored_def)

text \<open>
  C2, amended. \<^verbatim>\<open>Init\<close> assigns each field as soon as its value is there and undoes
  nothing when a later step fails. When the library cannot be opened the object is as it
  was. When a symbol is missing, the handle is stored, and so is the binding of every
  symbol that comes before the first missing one; every other field is as it was.
\<close>

theorem Init_failure_state:
  assumes "isl (fst (Init w s))"
  shows "fst (snd (Init w s)) =
     (case files w (lib_path_' s) of
        None \<Rightarrow> s
      | Some lib \<Rightarrow>
          fold (\<lambda>symbol. store_binding symbol (lib symbol))
            (takeWhile (\<lambda>symbol. lib symbol \<noteq> None) required_symbols)
            (s\<lparr>dl_handle_' := Some lib\<rparr>))"
  using assms
  by (auto simp: loader_defs required_symbols_def split: option.splits if_splits)

text \<open>
  On the library that exports only \<^verbatim>\<open>LoadGraph\<close> and \<^verbatim>\<open>AddVerticesToGraph\<close>, the failed
  \<^verbatim>\<open>Init\<close> leaves the handle and these two bindings in the object.
\<close>

theorem partial_library_failure_state:
  "isl (fst (Init test_world (new_PropertyGraphUtils ''plugin-1'' ''/lib/partial.so'')))
   \<and> fst (snd (Init test_world (new_PropertyGraphUtils ''plugin-1'' ''/lib/partial.so''))) =
       (new_PropertyGraphUtils ''plugin-1'' ''/lib/partial.so'')
         \<lparr>dl_handle_' := Some partial_library,
          load_graph_' := Some (EP_LoadGraph stub_LoadGraph),
          add_vertices_to_graph_' := Some (EP_AddToGraph stub_AddVerticesToGraph)\<rparr>"
proof -
  let ?p = "new_PropertyGraphUtils ''plugin-1'' ''/lib/partial.so''"
  have failed: "isl (fst (Init test_world ?p))"
    by (simp add: loader_defs scenario_defs)
  have opened: "files test_world (lib_path_' ?p) = Some partial_library"
    by (simp add: scenario_defs)
  from Init_failure_state [OF failed]
  have "fst (snd (Init test_world ?p)) =
      fold (\<lambda>symbol. store_binding symbol (partial_library symbol))
        (takeWhile (\<lambda>symbol. partial_library symbol \<noteq> None) required_symbols)
        (?p\<lparr>dl_handle_' := Some partial_library\<rparr>)"
    by (simp only: opened option.case)
  also have "\<dots> = ?p\<lparr>dl_handle_' := Some partial_library,
          load_graph_' := Some (EP_LoadGraph stub_LoadGraph),
          add_vertices_to_graph_' := Some (EP_AddToGraph stub_AddVerticesToGraph)\<rparr>"
    by (simp add: scenario_defs)
  finally show ?thesis using failed by simp
qed

text \<open>
  C6. When the library opens and exports all five symbols, each with the signature of
  its typedef, \<^verbatim>\<open>Init\<close> succeeds and stores the handle and the five bindings. Every
  operation method then hands a result back, in any world and in either build.
\<close>

theorem Init_succeeds_on_exporting_library:
  assumes "files w (lib_path_' s) = Some lib"
      and "lib ''LoadGraph'' = Some (EP_LoadGraph load)"
      and "lib ''AddVerticesToGraph'' = Some (EP_AddToGraph add_vertices)"
      and "lib ''AddEdgesToGraph'' = Some (EP_AddToGraph add_edges)"
      and "lib ''ToArrowFragment'' = Some (EP_ToArrow to_arrow)"
      and "lib ''ToDynamicFragment'' = Some (EP_ToDynamic to_dynamic)"
  shows "fst (Init w s) = Inr ()
       \<and> fst (snd (Init w s)) =
           s\<lparr>dl_handle_' := Some lib,
             load_graph_' := Some (EP_LoadGraph load),
             add_vertices_to_graph_' := Some (EP_AddToGraph add_vertices),
             add_edges_to_graph_' := Some (EP_AddToGraph add_edges),
             to_arrow_fragment_' := Some (EP_ToArrow to_arrow),
             to_dynamic_fragment_' := Some (EP_ToDynamic to_dynamic)\<rparr>
       \<and> has_returned (fst (LoadGraph w' (fst (snd (Init w s)))
                              comm_spec client graph_name params))
       \<and> has_returned (fst (AddVerticesToGraph w' (fst (snd (Init w s)))
                              frag_id comm_spec client graph_name params))
       \<and> has_returned (fst (AddEdgesToGraph w' (fst (snd (Init w s)))
                              frag_id comm_spec client graph_name params))
       \<and> has_returned (fst (ToArrowFragment b w' (fst (snd (Init w s)))
                              client comm_spec wrapper_in dst_graph_name))
       \<and> has_returned (fst (ToDynamicFragment b w' (fst (snd (Init w s)))
                              comm_spec wrapper_in dst_graph_name))"
proof -
  have run: "Init w s =
      (Inr (),
       s\<lparr>dl_handle_' := Some lib,
         load_graph_' := Some (EP_LoadGraph load),
         add_vertices_to_graph_' := Some (EP_AddToGraph add_vertices),
         add_edges_to_graph_' := Some (EP_AddToGraph add_edges),
         to_arrow_fragment_' := Some (EP_ToArrow to_arrow),
         to_dynamic_fragment_' := Some (EP_ToDynamic to_dynamic)\<rparr>,
       w\<lparr>log := log w @
           [OpenLib (lib_path_' s),
            GetFuncPtr (lib_path_' s) ''LoadGraph'',
            GetFuncPtr (lib_path_' s) ''AddVerticesToGraph'',
            GetFuncPtr (lib_path_' s) ''AddEdgesToGraph'',
            GetFuncPtr (lib_path_' s) ''ToArrowFragment'',
            GetFuncPtr (lib_path_' s) ''ToDynamicFragment'']\<rparr>)"
    using assms by (simp add: loader_defs)
  show ?thesis
    unfolding run by (simp add: method_defs)
qed

text \<open>The object \<open>plugin-1\<close> on the library that exports everything becomes ready.\<close>

theorem full_library_Init_succeeds:
  "files test_world (lib_path_' fresh_plugin) = Some full_library
   \<and> full_library ''LoadGraph'' = Some (EP_LoadGraph stub_LoadGraph)
   \<and> full_library ''AddVerticesToGraph'' = Some (EP_AddToGraph stub_AddVerticesToGraph)
   \<and> full_library ''AddEdgesToGraph'' = Some (EP_AddToGraph stub_AddEdgesToGraph)
   \<and> full_library ''ToArrowFragment'' = Some (EP_ToArrow stub_ToArrowFragment)
   \<and> full_library ''ToDynamicFragment'' = Some (EP_ToDynamic stub_ToDynamicFragment)
   \<and> fst (Init test_world fresh_plugin) = Inr ()
   \<and> ready_plugin =
       fresh_plugin\<lparr>dl_handle_' := Some full_library,
         load_graph_' := Some (EP_LoadGraph stub_LoadGraph),
         add_vertices_to_graph_' := Some (EP_AddToGraph stub_AddVerticesToGraph),
         add_edges_to_graph_' := Some (EP_AddToGraph stub_AddEdgesToGraph),
         to_arrow_fragment_' := Some (EP_ToArrow stub_ToArrowFragment),
         to_dynamic_fragment_' := Some (EP_ToDynamic stub_ToDynamicFragment)\<rparr>
   \<and> has_returned (fst (LoadGraph ready_world ready_plugin
                          (CommSpec 0) (Client 0) ''g1'' (GSParams [])))
   \<and> has_returned (fst (AddVerticesToGraph ready_world ready_plugin
                          (ObjectID 7) (CommSpec 0) (Client 0) ''g1'' (GSParams [])))
   \<and> has_returned (fst (AddEdgesToGraph ready_world ready_plugin
                          (ObjectID 7) (CommSpec 0) (Client 0) ''g1'' (GSParams [])))
   \<and> has_returned (fst (ToArrowFragment True ready_world ready_plugin
                          (Client 0) (CommSpec 0) (Some (IFragmentWrapper 5)) ''g2''))
   \<and> has_returned (fst (ToDynamicFragment True ready_world ready_plugin
                          (CommSpec 0) (Some (IFragmentWrapper 5)) ''g2''))"
  using Init_succeeds_on_exporting_library [OF fresh_plugin_opens full_library_symbols,
            where w' = ready_world and comm_spec = "CommSpec 0" and client = "Client 0"
              and graph_name = "''g1''" and params = "GSParams []" and frag_id = "ObjectID 7"
              and b = True and wrapper_in = "Some (IFragmentWrapper 5)"
              and dst_graph_name = "''g2''", folded ready_plugin_def]
    fresh_plugin_opens full_library_symbols
  by simp

text \<open>
  C7. When the library cannot be opened, \<^verbatim>\<open>Init\<close> fails with \<open>LibraryLoadError\<close>;
  the object is unchanged, the loader has been asked to open the path and for nothing
  else: no resolution has been added to those made before.
\<close>

theorem Init_open_failure:
  assumes "files w (lib_path_' s) = None"
  shows "Init w s =
           (Inl (LibraryLoadError (lib_path_' s)), s,
            w\<lparr>log := log w @ [OpenLib (lib_path_' s)]\<rparr>)
       \<and> resolutions (log (snd (snd (Init w s)))) = resolutions (log w)"
  using assms by (simp add: loader_defs resolutions_append)

text \<open>A path at which there is no library: one open, no resolution.\<close>

theorem absent_library_load_error:
  "files test_world (lib_path_' (new_PropertyGraphUtils ''plugin-1'' ''/lib/absent.so'')) = None
   \<and> Init test_world (new_PropertyGraphUtils ''plugin-1'' ''/lib/absent.so'') =
       (Inl (LibraryLoadError ''/lib/absent.so''),
        new_PropertyGraphUtils ''plugin-1'' ''/lib/absent.so'',
        test_world\<lparr>log := [OpenLib ''/lib/absent.so'']\<rparr>)
   \<and> resolutions (log (snd (snd (Init test_world
         (new_PropertyGraphUtils ''plugin-1'' ''/lib/absent.so''))))) = []"
proof -
  let ?p = "new_PropertyGraphUtils ''plugin-1'' ''/lib/absent.so''"
  have closed: "files test_world (lib_path_' ?p) = None"
    by (simp add: scenario_defs)
  have path: "lib_path_' ?p = ''/lib/absent.so''" and empty: "log test_world = []"
    by (simp_all add: scenario_defs)
  from Init_open_failure [OF closed] closed show ?thesis
    unfolding path empty by simp
qed

text \<open>
  C10. \<^verbatim>\<open>Init\<close> has no \<^verbatim>\<open>#ifdef\<close>: it asks for \<^verbatim>\<open>ToArrowFragment\<close> and
  \<^verbatim>\<open>ToDynamicFragment\<close> in every build. Whenever the opened library lacks one of the
  two, \<^verbatim>\<open>Init\<close> fails with a \<open>SymbolResolutionError\<close> for one of the required symbols;
  when the three symbols before them are there, the error names the conversion symbol
  that is missing. This is so in the build whose conversion methods only return the
  unsupported-operation error.
\<close>

theorem Init_requires_conversion_symbols:
  assumes "files w (lib_path_' s) = Some lib"
      and "lib ''ToArrowFragment'' = None \<or> lib ''ToDynamicFragment'' = None"
  shows "(\<exists>symbol \<in> set required_symbols.
            fst (Init w s) = Inl (SymbolResolutionError symbol (lib_path_' s)))
       \<and> (lib ''LoadGraph'' \<noteq> None \<and> lib ''AddVerticesToGraph'' \<noteq> None
            \<and> lib ''AddEdgesToGraph'' \<noteq> None \<longrightarrow>
          fst (Init w s) =
            Inl (SymbolResolutionError
                   (if lib ''ToArrowFragment'' = None then ''ToArrowFragment''
                    else ''ToDynamicFragment'') (lib_path_' s)))
       \<and> fst (ToArrowFragment False w' s' client comm_spec wrapper_in dst_graph_name) =
           Returned (Inl (GSError kUnsupportedOperationError
                            ''GS is compiled with EXPERIMENTAL_ON=OFF''))
       \<and> fst (ToDynamicFragment False w' s' comm_spec wrapper_in dst_graph_name) =
           Returned (Inl (GSError kUnsupportedOperationError
                            ''GS is compiled with EXPERIMENTAL_ON=OFF''))"
  using assms
  by (auto simp: loader_defs method_defs required_symbols_def Let_def split: option.splits)

text \<open>
  A library with the three graph operations and neither conversion: \<^verbatim>\<open>Init\<close> fails at
  \<^verbatim>\<open>ToArrowFragment\<close>.
\<close>

theorem core_library_Init_fails:
  "files test_world (lib_path_' (new_PropertyGraphUtils ''plugin-1'' ''/lib/core.so'')) =
     Some core_library
   \<and> (core_library ''ToArrowFragment'' = None \<or> core_library ''ToDynamicFragment'' = None)
   \<and> core_library ''LoadGraph'' \<noteq> None
   \<and> core_library ''AddVerticesToGraph'' \<noteq> None
   \<and> core_library ''AddEdgesToGraph'' \<noteq> None
   \<and> fst (Init test_world (new_PropertyGraphUtils ''plugin-1'' ''/lib/core.so'')) =
       Inl (SymbolResolutionError ''ToArrowFragment'' ''/lib/core.so'')"
proof -
  let ?p = "new_PropertyGraphUtils ''plugin-1'' ''/lib/core.so''"
  have opened: "files test_world (lib_path_' ?p) = Some core_library"
    by (simp add: scenario_defs)
  have lacks: "core_library ''ToArrowFragment'' = None \<or> core_library ''ToDynamicFragment'' = None"
    by (simp add: core_library_def)
  have has: "core_library ''LoadGraph'' \<noteq> None" "core_library ''AddVerticesToGraph'' \<noteq> None"
    "core_library ''AddEdgesToGraph'' \<noteq> None" "core_library ''ToArrowFragment'' = None"
    by (simp_all add: core_library_def)
  have path: "lib_path_' ?p = ''/lib/core.so''"
    by (simp add: new_PropertyGraphUtils_def)
  from Init_requires_conversion_symbols [OF opened lacks] opened lacks has show ?thesis
    unfolding path by simp
qed

section \<open>The operation methods\<close>

text \<open>
  C3. Compiled without \<^verbatim>\<open>EXPERIMENTAL_ON\<close>, \<^verbatim>\<open>ToArrowFragment\<close> and
  \<^verbatim>\<open>ToDynamicFragment\<close> return an error of kind \<open>kUnsupportedOperationError\<close> whose
  message names the build setting, whatever the object's bindings and whatever the
  library exports. The world comes back as it was: nothing has been asked of the loader
  and no entry point has been called.
\<close>

theorem conversions_unsupported_without_experimental:
  "ToArrowFragment False w s client comm_spec wrapper_in dst_graph_name =
     (Returned (Inl (GSError kUnsupportedOperationError
                       ''GS is compiled with EXPERIMENTAL_ON=OFF'')), s, w)
   \<and> ToDynamicFragment False w s comm_spec wrapper_in dst_graph_name =
     (Returned (Inl (GSError kUnsupportedOperationError
                       ''GS is compiled with EXPERIMENTAL_ON=OFF'')), s, w)"
  by (simp add: method_defs)




text \<open>
  C8. After a successful \<^verbatim>\<open>Init\<close> on a library whose \<^verbatim>\<open>LoadGraph\<close>,
  \<^verbatim>\<open>AddVerticesToGraph\<close> and \<^verbatim>\<open>AddEdgesToGraph\<close> have the signatures of their typedefs,
  each of the three methods calls the entry point resolved under its own name, with
  its inputs as they came and the empty slot, and returns what the entry point has left
  in the slot: a wrapper, or the entry point's error.
\<close>

theorem operations_forward_after_Init:
  assumes "Init w0 s0 = (Inr (), s, w1)"
      and "files w0 (lib_path_' s0) = Some lib"
      and "lib ''LoadGraph'' = Some (EP_LoadGraph load)"
      and "lib ''AddVerticesToGraph'' = Some (EP_AddToGraph add_vertices)"
      and "lib ''AddEdgesToGraph'' = Some (EP_AddToGraph add_edges)"
  shows "LoadGraph w s comm_spec client graph_name params =
           (Returned (load comm_spec client graph_name params empty_slot), s,
            record_event (EntryCall (EP_LoadGraph load)) w)
       \<and> AddVerticesToGraph w s frag_id comm_spec client graph_name params =
           (Returned (add_vertices frag_id comm_spec client graph_name params empty_slot), s,
            record_event (EntryCall (EP_AddToGraph add_vertices)) w)
       \<and> AddEdgesToGraph w s frag_id comm_spec client graph_name params =
           (Returned (add_edges frag_id comm_spec client graph_name params empty_slot), s,
            record_event (EntryCall (EP_AddToGraph add_edges)) w)"
proof -
  note st = Init_success_state [OF assms(1,2)]
  have "load_graph_' s = Some (EP_LoadGraph load)"
    and "add_vertices_to_graph_' s = Some (EP_AddToGraph add_vertices)"
    and "add_edges_to_graph_' s = Some (EP_AddToGraph add_edges)"
    using assms(3-5) by (simp_all add: st)
  then show ?thesis
    by (simp add: LoadGraph_def AddVerticesToGraph_def AddEdgesToGraph_def)
qed

text \<open>
  The scenario of the specification: after \<^verbatim>\<open>Init\<close> on the library that exports
  everything, \<^verbatim>\<open>LoadGraph\<close> with graph name \<open>g1\<close> and an empty parameter bag returns
  the wrapper the stub produces for that input.
\<close>

theorem full_library_operations_forward:
  "Init test_world fresh_plugin = (Inr (), ready_plugin, ready_world)
   \<and> files test_world (lib_path_' fresh_plugin) = Some full_library
   \<and> full_library ''LoadGraph'' = Some (EP_LoadGraph stub_LoadGraph)
   \<and> full_library ''AddVerticesToGraph'' = Some (EP_AddToGraph stub_AddVerticesToGraph)
   \<and> full_library ''AddEdgesToGraph'' = Some (EP_AddToGraph stub_AddEdgesToGraph)
   \<and> LoadGraph ready_world ready_plugin (CommSpec 0) (Client 0) ''g1'' (GSParams []) =
       (Returned (Inr (Some (IFragmentWrapper 1))), ready_plugin,
        record_event (EntryCall (EP_LoadGraph stub_LoadGraph)) ready_world)
   \<and> AddVerticesToGraph ready_world ready_plugin (ObjectID 7) (CommSpec 0) (Client 0) ''g1''
        (GSParams []) =
       (Returned (Inr (Some (IFragmentWrapper 17))), ready_plugin,
        record_event (EntryCall (EP_AddToGraph stub_AddVerticesToGraph)) ready_world)
   \<and> AddEdgesToGraph ready_world ready_plugin (ObjectID 7) (CommSpec 0) (Client 0) ''g1''
        (GSParams []) =
       (Returned (Inr (Some (IFragmentWrapper 27))), ready_plugin,
        record_event (EntryCall (EP_AddToGraph stub_AddEdgesToGraph)) ready_world)"
proof -
  have stubs:
    "stub_LoadGraph (CommSpec 0) (Client 0) ''g1'' (GSParams []) empty_slot =
       Inr (Some (IFragmentWrapper 1))"
    "stub_AddVerticesToGraph (ObjectID 7) (CommSpec 0) (Client 0) ''g1'' (GSParams []) empty_slot =
       Inr (Some (IFragmentWrapper 17))"
    "stub_AddEdgesToGraph (ObjectID 7) (CommSpec 0) (Client 0) ''g1'' (GSParams []) empty_slot =
       Inr (Some (IFragmentWrapper 27))"
    by (simp_all add: stub_LoadGraph_def stub_AddVerticesToGraph_def stub_AddEdgesToGraph_def)
  from operations_forward_after_Init
        [OF fresh_plugin_Init fresh_plugin_opens full_library_symbols(1-3),
         where w = ready_world and comm_spec = "CommSpec 0" and client = "Client 0"
           and graph_name = "''g1''" and params = "GSParams []" and frag_id = "ObjectID 7"]
    fresh_plugin_Init fresh_plugin_opens full_library_symbols(1-3)
  show ?thesis by (simp add: stubs)
qed

text \<open>
  C5. In a build with \<^verbatim>\<open>EXPERIMENTAL_ON\<close>, after a successful \<^verbatim>\<open>Init\<close> on a library
  whose \<^verbatim>\<open>ToArrowFragment\<close> and \<^verbatim>\<open>ToDynamicFragment\<close> have the signatures of their
  typedefs, each conversion calls the entry point resolved under its own name, with its
  inputs as they came and the empty slot, and returns what the entry point has left in
  the slot.
\<close>

theorem conversions_forward_after_Init:
  assumes "Init w0 s0 = (Inr (), s, w1)"
      and "files w0 (lib_path_' s0) = Some lib"
      and "lib ''ToArrowFragment'' = Some (EP_ToArrow to_arrow)"
      and "lib ''ToDynamicFragment'' = Some (EP_ToDynamic to_dynamic)"
  shows "ToArrowFragment True w s client comm_spec wrapper_in dst_graph_name =
           (Returned (to_arrow client comm_spec wrapper_in dst_graph_name empty_slot), s,
            record_event (EntryCall (EP_ToArrow to_arrow)) w)
       \<and> ToDynamicFragment True w s comm_spec wrapper_in dst_graph_name =
           (Returned (to_dynamic comm_spec wrapper_in dst_graph_name empty_slot), s,
            record_event (EntryCall (EP_ToDynamic to_dynamic)) w)"
proof -
  note st = Init_success_state [OF assms(1,2)]
  have "to_arrow_fragment_' s = Some (EP_ToArrow to_arrow)"
    and "to_dynamic_fragment_' s = Some (EP_ToDynamic to_dynamic)"
    using assms(3,4) by (simp_all add: st)
  then show ?thesis
    by (simp add: ToArrowFragment_def ToDynamicFragment_def)
qed

text \<open>
  On the library that exports everything, a conversion of a wrapper returns the stub's
  wrapper, and a conversion of the null wrapper returns the stub's error.
\<close>

theorem full_library_conversions_forward:
  "Init test_world fresh_plugin = (Inr (), ready_plugin, ready_world)
   \<and> files test_world (lib_path_' fresh_plugin) = Some full_library
   \<and> full_library ''ToArrowFragment'' = Some (EP_ToArrow stub_ToArrowFragment)
   \<and> full_library ''ToDynamicFragment'' = Some (EP_ToDynamic stub_ToDynamicFragment)
   \<and> ToArrowFragment True ready_world ready_plugin (Client 0) (CommSpec 0)
        (Some (IFragmentWrapper 5)) ''g2'' =
       (Returned (Inr (Some (IFragmentWrapper 5))), ready_plugin,
        record_event (EntryCall (EP_ToArrow stub_ToArrowFragment)) ready_world)
   \<and> ToDynamicFragment True ready_world ready_plugin (CommSpec 0) None ''g2'' =
       (Returned (Inl (GSError (kOtherErrorCode 4) ''no fragment'')), ready_plugin,
        record_event (EntryCall (EP_ToDynamic stub_ToDynamicFragment)) ready_world)"
proof -
  have stubs:
    "stub_ToArrowFragment (Client 0) (CommSpec 0) (Some (IFragmentWrapper 5)) ''g2'' empty_slot =
       Inr (Some (IFragmentWrapper 5))"
    "stub_ToDynamicFragment (CommSpec 0) None ''g2'' empty_slot =
       Inl (GSError (kOtherErrorCode 4) ''no fragment'')"
    by (simp_all add: stub_ToArrowFragment_def stub_ToDynamicFragment_def)
  note forwards = conversions_forward_after_Init
        [OF fresh_plugin_Init fresh_plugin_opens full_library_symbols(4,5),
         where w = ready_world and comm_spec = "CommSpec 0" and client = "Client 0"
           and dst_graph_name = "''g2''"]
  from forwards [where wrapper_in = "Some (IFragmentWrapper 5)"]
    forwards [where wrapper_in = None]
    fresh_plugin_Init fresh_plugin_opens full_library_symbols(4,5)
  show ?thesis by (simp add: stubs)
qed




end
